theory Spec2Isabelle
  imports Complex_Main "HOL-Library.Sublist"
begin

section \<open>Text as Python sees it\<close>

text \<open>
  Both scripts work on text: card files, log files and the names of runs. A Python
  \<open>str\<close> is modelled as a \<^typ>\<open>string\<close> whose characters are the code points below 256.
  The character classes are the ones Python uses for \<open>str.split()\<close>, \<open>\s\<close>, \<open>\d\<close> and
  \<open>\w\<close> on that range.

  A file holds bytes, one \<^typ>\<open>char\<close> each. The scripts open their files in text mode
  with the default settings: the bytes are decoded, and on reading each of \<open>\r\n\<close>, \<open>\r\<close>
  and \<open>\n\<close> ends a line and is handed to the program as \<open>\n\<close>.
\<close>

definition newline :: char where
  "newline = CHR 0x0A"

definition carriage_return :: char where
  "carriage_return = CHR 0x0D"

definition isspace :: "char \<Rightarrow> bool" where
  \<comment> \<open>\<open>str.isspace\<close> and the class \<open>\s\<close>: TAB to CR, FS to US, space, NEL, NBSP.\<close>
  "isspace c =
     (let n = (of_char c :: nat)
      in (9 \<le> n \<and> n \<le> 13) \<or> (28 \<le> n \<and> n \<le> 32) \<or> n = 133 \<or> n = 160)"

fun split_from :: "string \<Rightarrow> string \<Rightarrow> string list" where
  \<comment> \<open>the scan of \<open>str.split()\<close>; the first argument is the token being read\<close>
  "split_from cur [] = (if cur = [] then [] else [cur])"
| "split_from cur (c # cs) =
     (if isspace c then (if cur = [] then split_from [] cs else cur # split_from [] cs)
      else split_from (cur @ [c]) cs)"

definition str_split :: "string \<Rightarrow> string list" where
  \<comment> \<open>\<open>line.split()\<close>: the maximal runs of characters that are not whitespace\<close>
  "str_split s = split_from [] s"

fun split_on :: "char \<Rightarrow> string \<Rightarrow> string list" where
  \<comment> \<open>\<open>s.split(sep)\<close> for a one-character separator\<close>
  "split_on sep [] = [[]]"
| "split_on sep (c # cs) =
     (if c = sep then [] # split_on sep cs
      else (case split_on sep cs of [] \<Rightarrow> [[c]] | x # xs \<Rightarrow> (c # x) # xs))"

fun join :: "string \<Rightarrow> string list \<Rightarrow> string" where
  \<comment> \<open>\<open>sep.join(xs)\<close>\<close>
  "join sep [] = []"
| "join sep [x] = x"
| "join sep (x # y # ys) = x @ sep @ join sep (y # ys)"

fun contains :: "string \<Rightarrow> string \<Rightarrow> bool" where
  \<comment> \<open>\<open>sub in s\<close>\<close>
  "contains sub [] = (sub = [])"
| "contains sub (c # cs) = (prefix sub (c # cs) \<or> contains sub cs)"

fun universal_newlines :: "string \<Rightarrow> string" where
  \<comment> \<open>the translation of line ends on reading: \<open>\r\n\<close> and \<open>\r\<close> become \<open>\n\<close>\<close>
  "universal_newlines [] = []"
| "universal_newlines [c] = (if c = carriage_return then [newline] else [c])"
| "universal_newlines (c # d # cs) =
     (if c = carriage_return
      then (if d = newline then newline # universal_newlines cs
            else newline # universal_newlines (d # cs))
      else c # universal_newlines (d # cs))"

fun lines_of :: "string \<Rightarrow> string list" where
  \<comment> \<open>a text cut after each \<open>\n\<close>; the last line may lack one\<close>
  "lines_of [] = []"
| "lines_of (c # cs) =
     (if c = newline then [c] # lines_of cs
      else (case lines_of cs of [] \<Rightarrow> [[c]] | l # ls \<Rightarrow> (c # l) # ls))"

definition readlines :: "string \<Rightarrow> string list" where
  \<comment> \<open>\<open>for line in f\<close> over decoded text: the lines, each with its \<open>\n\<close>\<close>
  "readlines text = lines_of (universal_newlines text)"

definition isdigit :: "char \<Rightarrow> bool" where
  \<comment> \<open>the class \<open>\d\<close>: below 256 the decimal digits are \<open>0\<close> to \<open>9\<close>\<close>
  "isdigit c = (let n = (of_char c :: nat) in 48 \<le> n \<and> n \<le> 57)"

subsection \<open>Decoding and encoding\<close>

text \<open>
  The codec of the text layer depends on the locale, and Python decodes a file block by
  block while it is read. Both are parameters of the model. A decoder \<open>dec\<close> gives for the
  bytes \<open>b\<close> of a file a pair \<open>(t, ok)\<close>. When \<open>ok\<close> holds, \<open>b\<close> is valid and \<open>t\<close> is its
  text. When \<open>ok\<close> does not hold, reading \<open>b\<close> fails with \<open>UnicodeDecodeError\<close>: reading the
  whole file at once fails outright, and reading it line by line delivers the lines of
  \<open>t\<close>, the text of the blocks before the bad one, and fails then. An encoder gives the
  bytes of a text, or \<open>None\<close> where Python raises \<open>UnicodeEncodeError\<close>. \<open>latin1\<close> and
  \<open>latin1_bytes\<close> are the codec ISO 8859-1, in which every byte is the character of the
  same number.
\<close>

type_synonym decoder = "string \<Rightarrow> string \<times> bool"

type_synonym encoder = "string \<Rightarrow> string option"

definition latin1 :: decoder where
  "latin1 b = (b, True)"

definition latin1_bytes :: encoder where
  "latin1_bytes t = Some t"

subsection \<open>A reader of decimal literals\<close>

text \<open>
  Python's \<open>float()\<close> is a parameter of the model. Where an example needs a concrete
  reader, \<open>decimal\<close> stands for it: it reads \<open>[sign] digits [. digits] [e [sign] digits]\<close>
  and returns the value \<open>m * 10 ^ k\<close> as the pair \<open>(m, k)\<close>, without rounding to a double.
\<close>

definition digits_value :: "string \<Rightarrow> nat" where
  "digits_value ds = foldl (\<lambda>acc d. 10 * acc + (of_char d - 48)) 0 ds"

definition unsigned :: "string \<Rightarrow> nat option" where
  "unsigned ds = (if ds \<noteq> [] \<and> list_all isdigit ds then Some (digits_value ds) else None)"

definition signed :: "string \<Rightarrow> int option" where
  "signed s =
     (case s of
        c # r \<Rightarrow>
          if c = CHR ''-'' then map_option (\<lambda>n. - int n) (unsigned r)
          else if c = CHR ''+'' then map_option int (unsigned r)
          else map_option int (unsigned s)
      | [] \<Rightarrow> None)"

definition mantissa :: "string \<Rightarrow> (int \<times> int) option" where
  "mantissa s =
     (let ip = takeWhile (\<lambda>c. c \<noteq> CHR ''.'') s; fp = drop (Suc (length ip)) s
      in if length ip = length s then map_option (\<lambda>m. (m, 0)) (signed s)
         else if fp = [] \<or> \<not> list_all isdigit fp then None
         else map_option (\<lambda>m. (m, - int (length fp))) (signed (ip @ fp)))"

definition decimal :: "string \<Rightarrow> (int \<times> int) option" where
  "decimal s =
     (let mp = takeWhile (\<lambda>c. c \<noteq> CHR ''e'' \<and> c \<noteq> CHR ''E'') s; ep = drop (Suc (length mp)) s
      in case mantissa mp of
           None \<Rightarrow> None
         | Some (m, k) \<Rightarrow>
             if length mp = length s then Some (m, k)
             else map_option (\<lambda>e. (m, k + e)) (signed ep))"

section \<open>Exceptions\<close>

text \<open>
  Every exception the scripts raise or let through is a value. \<open>RuntimeError\<close> carries its
  cause (\<open>raise ... from e\<close>), when it has one; messages are left out.
\<close>

datatype error =
    IndexError
  | ValueError
  | FileNotFoundError
  | UnicodeDecodeError
  | UnicodeEncodeError
  | CalledProcessError int
  | SystemExit nat
  | RuntimeError "error option"

section \<open>Paths\<close>

text \<open>
  A path is what \<open>pathlib\<close> makes of it on a POSIX system: a root, which is empty for a
  relative path, and the names below it. \<open>Path\<close> reads a string as a path: components
  that are empty or \<open>.\<close> are dropped, and exactly two leading slashes are a root of their
  own. \<open>joinpath\<close> is the operator \<open>/\<close> with a string on the right: an absolute right
  operand replaces the left one. \<open>str_path\<close> is \<open>str(path)\<close>. The name \<open>..\<close> is kept as
  it is. \<open>base\<close> stands for the string of \<open>BASE_DIR\<close>, the directory of the script.
\<close>

datatype path = PurePath (anchor: string) (names: "string list")

definition components :: "string \<Rightarrow> string list" where
  "components s = filter (\<lambda>n. n \<noteq> [] \<and> n \<noteq> ''.'') (split_on CHR ''/'' s)"

definition root_of :: "string \<Rightarrow> string" where
  "root_of s =
     (if prefix ''//'' s \<and> \<not> prefix ''///'' s then ''//''
      else if prefix ''/'' s then ''/''
      else [])"

definition Path :: "string \<Rightarrow> path" where
  "Path s = PurePath (root_of s) (components s)"

definition joinpath :: "path \<Rightarrow> string \<Rightarrow> path" where
  "joinpath p s =
     (if prefix ''/'' s then Path s else PurePath (anchor p) (names p @ components s))"

definition under :: "path \<Rightarrow> path \<Rightarrow> path" where
  \<comment> \<open>a path taken from a directory: an absolute path stays as it is\<close>
  "under d p = (if anchor p \<noteq> [] then p else PurePath (anchor d) (names d @ names p))"

definition parent :: "path \<Rightarrow> path" where
  \<comment> \<open>\<open>path.parent\<close>\<close>
  "parent p = PurePath (anchor p) (butlast (names p))"

definition str_path :: "path \<Rightarrow> string" where
  "str_path p =
     (if anchor p = [] \<and> names p = [] then ''.'' else anchor p @ join ''/'' (names p))"

definition LOG_DIR :: "string \<Rightarrow> path" where
  "LOG_DIR base = joinpath (Path base) ''logs''"

definition log_path_of :: "string \<Rightarrow> string \<Rightarrow> path" where
  \<comment> \<open>\<open>LOG_DIR / f"{run_name}.log"\<close>\<close>
  "log_path_of base name = joinpath (LOG_DIR base) (name @ ''.log'')"

section \<open>The result parser\<close>

text \<open>
  \<open>parse_cross_section\<close> (the same text in both scripts). Python's \<open>float()\<close> is a
  built-in: it is the parameter \<open>pf\<close>, which returns \<open>None\<close> where \<open>float()\<close> raises
  \<open>ValueError\<close>. The file system is a map from paths to the bytes of the file, and \<open>dec\<close>
  is the decoder of the text layer. The flag \<open>ok\<close> of \<open>scan_log\<close> says how the lines end:
  with the end of the file, or with a \<open>UnicodeDecodeError\<close>, which is raised inside the
  loop and outside the \<open>try\<close>.
\<close>

definition marker :: string where
  "marker = ''Cross-section :''"

definition index :: "'a list \<Rightarrow> nat \<Rightarrow> error + 'a" where
  \<comment> \<open>\<open>parts[i]\<close> for a literal \<open>i \<ge> 0\<close>\<close>
  "index xs i = (if i < length xs then Inr (xs ! i) else Inl IndexError)"

definition to_float :: "(string \<Rightarrow> 'f option) \<Rightarrow> string \<Rightarrow> error + 'f" where
  "to_float pf tok = (case pf tok of None \<Rightarrow> Inl ValueError | Some x \<Rightarrow> Inr x)"

definition bind :: "error + 'a \<Rightarrow> ('a \<Rightarrow> error + 'b) \<Rightarrow> error + 'b" where
  \<comment> \<open>one statement after another: an exception skips what follows\<close>
  "bind r f = (case r of Inl e \<Rightarrow> Inl e | Inr x \<Rightarrow> f x)"

definition parse_fields :: "(string \<Rightarrow> 'f option) \<Rightarrow> string list \<Rightarrow> error + ('f \<times> 'f \<times> string)" where
  \<comment> \<open>the body of the \<open>try\<close>, in the order of its three assignments\<close>
  "parse_fields pf parts =
     bind (index parts 2) (\<lambda>t2.
     bind (to_float pf t2) (\<lambda>xsec.
     bind (index parts 4) (\<lambda>t4.
     bind (to_float pf t4) (\<lambda>err.
     bind (index parts 5) (\<lambda>unit.
     Inr (xsec, err, unit))))))"

fun scan_log :: "(string \<Rightarrow> 'f option) \<Rightarrow> bool \<Rightarrow> string list \<Rightarrow> error + ('f \<times> 'f \<times> string)" where
  \<comment> \<open>the loop over the lines, with its \<open>break\<close>, and the test after it\<close>
  "scan_log pf ok [] = (if ok then Inl (RuntimeError None) else Inl UnicodeDecodeError)"
| "scan_log pf ok (line # rest) =
     (if contains marker line
      then (case parse_fields pf (str_split line) of
              Inl e \<Rightarrow> Inl (RuntimeError (Some e))
            | Inr r \<Rightarrow> Inr r)
      else scan_log pf ok rest)"

definition parse_cross_section ::
  "decoder \<Rightarrow> (string \<Rightarrow> 'f option) \<Rightarrow> (path \<rightharpoonup> string) \<Rightarrow> path \<Rightarrow> error + ('f \<times> 'f \<times> string)" where
  "parse_cross_section dec pf fs log_path =
     (case fs log_path of
        None \<Rightarrow> Inl FileNotFoundError
      | Some content \<Rightarrow> (case dec content of (text, ok) \<Rightarrow> scan_log pf ok (readlines text)))"

section \<open>Scan parameters and run names\<close>

text \<open>
  A finite Python float is a rational number; the bounds of the mass bins are written
  as such. \<open>int(x)\<close> truncates towards zero and \<open>str(n)\<close> of an integer is its decimal
  numeral.
\<close>

definition MASS_BINS :: "(rat \<times> rat) list" where
  "MASS_BINS =
     [(15, 20), (20, 25), (25, 30), (30, 35), (35, 40), (40, 45), (45, 50), (50, 55),
      (55, 60), (60, 64), (64, 68), (68, 72), (72, 76), (76, 81), (81, 86), (86, 91),
      (91, 96), (96, 101), (101, 106), (106, 110), (110, 115), (115, 120), (120, 126),
      (126, 133), (133, 141), (141, 150), (150, 160), (160, 171), (171, 185), (185, 200),
      (200, 220), (220, 243), (243, 273), (273, 320), (320, 380), (380, 440), (440, 510),
      (510, 600), (600, 700), (700, 830), (830, 1000), (1000, 1500), (1500, 3000)]"

definition CXX_VALUES :: "int list" where
  "CXX_VALUES = [- 100, - 70, - 35, - 20, - 10, - 5, - 1, 1, 5, 10, 20, 35, 70, 100]"

definition py_int :: "rat \<Rightarrow> int" where
  \<comment> \<open>\<open>int(x)\<close> of a float\<close>
  "py_int x = (if 0 \<le> x then \<lfloor>x\<rfloor> else \<lceil>x\<rceil>)"

definition digit_char :: "nat \<Rightarrow> char" where
  "digit_char d = char_of (48 + d)"

fun str_nat :: "nat \<Rightarrow> string" where
  "str_nat n = (if n < 10 then [digit_char n] else str_nat (n div 10) @ [digit_char (n mod 10)])"

declare str_nat.simps [simp del]

definition str_int :: "int \<Rightarrow> string" where
  \<comment> \<open>\<open>str(n)\<close> of an integer\<close>
  "str_int i = (if i < 0 then CHR ''-'' # str_nat (nat (- i)) else str_nat (nat i))"

definition replace_char :: "char \<Rightarrow> char \<Rightarrow> string \<Rightarrow> string" where
  \<comment> \<open>\<open>s.replace(a, b)\<close> for one-character strings \<open>a\<close> and \<open>b\<close>\<close>
  "replace_char a b s = map (\<lambda>c. if c = a then b else c) s"

definition run_name :: "rat \<Rightarrow> rat \<Rightarrow> string" where
  \<comment> \<open>\<open>f"mll_{int(mmin)}_{int(mmax)}"\<close>\<close>
  "run_name mmin mmax = ''mll_'' @ str_int (py_int mmin) @ ''_'' @ str_int (py_int mmax)"

definition cxx_tag :: "int \<Rightarrow> string" where
  \<comment> \<open>\<open>str(cxx).replace(".", "p").replace("-", "m")\<close>\<close>
  "cxx_tag cxx = replace_char CHR ''-'' CHR ''m'' (replace_char CHR ''.'' CHR ''p'' (str_int cxx))"

definition cxx_run_name :: "rat \<Rightarrow> rat \<Rightarrow> int \<Rightarrow> string" where
  \<comment> \<open>\<open>f"mll_{int(mmin)}_{int(mmax)}_cxx_{cxx_tag}"\<close>\<close>
  "cxx_run_name mmin mmax cxx =
     ''mll_'' @ str_int (py_int mmin) @ ''_'' @ str_int (py_int mmax) @ ''_cxx_'' @ cxx_tag cxx"

section \<open>The world of the scripts\<close>

text \<open>
  What a script does to its surroundings is recorded in a \<open>world\<close>: the working
  directory, the directories and the regular files (by absolute path) and the trace of
  what the script does, in the order in which it happens: what it prints, the files it
  opens for reading, writing or appending, the directory it creates and the programs it
  runs. Opening a file that does not exist for reading, or opening a file for writing in
  a directory that does not exist, raises \<open>FileNotFoundError\<close>. A
  failure of the operating system other than a missing file or directory (permissions, a
  full disk) is outside the model. The one directory the scripts create is \<open>logs\<close> in
  \<open>BASE_DIR\<close>, which holds the running script and so exists.

  The event generator is an opaque program: it is the parameter \<open>proc\<close>, which gives, for
  an argument list and the world it is started in, the exit status and the bytes it
  writes to standard output and standard error together, or \<open>None\<close> when the program
  named by the first argument does not exist, where \<open>subprocess.run\<close> raises
  \<open>FileNotFoundError\<close>. Python's conversions between floats and text and its codec are
  parameters too, collected in the record \<open>builtins\<close>; \<open>'f\<close> is the type of the floats
  that \<open>float()\<close> returns.
\<close>

datatype event =
    Print string
  | Read path
  | Write path string
  | Append path string
  | Mkdir path
  | Run "string list" path

record world =
  cwd :: string
  dirs :: "path set"
  files :: "path \<rightharpoonup> string"
  trace :: "event list"

record 'f builtins =
  py_decode :: decoder
  py_encode :: encoder
  py_float :: "string \<Rightarrow> 'f option"
  str_float :: "rat \<Rightarrow> string"
  str_value :: "'f \<Rightarrow> string"
  fmt_6g :: "rat \<Rightarrow> string"
  fmt_10_3f :: "rat \<Rightarrow> string"
  fmt_12_6e :: "'f \<Rightarrow> string"
  fmt_6e :: "int \<Rightarrow> string"
  fmt_8_3f :: "int \<Rightarrow> string"

type_synonym 'a io = "world \<Rightarrow> (error + 'a) \<times> world"

type_synonym program = "string list \<Rightarrow> world \<Rightarrow> (int \<times> string) option"

definition resolve :: "world \<Rightarrow> path \<Rightarrow> path" where
  \<comment> \<open>the file that a path names: a relative path is taken from the working directory\<close>
  "resolve w p = under (Path (cwd w)) p"

definition view :: "world \<Rightarrow> (path \<rightharpoonup> string)" where
  \<comment> \<open>the files as the script sees them, by the paths it uses\<close>
  "view w = (\<lambda>p. files w (resolve w p))"

definition io_return :: "'a \<Rightarrow> 'a io" where
  "io_return x = (\<lambda>w. (Inr x, w))"

definition io_raise :: "error \<Rightarrow> 'a io" where
  "io_raise e = (\<lambda>w. (Inl e, w))"

definition io_bind :: "'a io \<Rightarrow> ('a \<Rightarrow> 'b io) \<Rightarrow> 'b io" where
  \<comment> \<open>one statement after another: an exception skips what follows\<close>
  "io_bind m f = (\<lambda>w. case m w of (Inl e, w') \<Rightarrow> (Inl e, w') | (Inr x, w') \<Rightarrow> f x w')"

definition emit :: "event \<Rightarrow> world \<Rightarrow> world" where
  "emit ev w = w\<lparr>trace := trace w @ [ev]\<rparr>"

definition py_print :: "string \<Rightarrow> unit io" where
  "py_print text = (\<lambda>w. (Inr (), emit (Print text) w))"

definition read_text :: "decoder \<Rightarrow> path \<Rightarrow> string io" where
  \<comment> \<open>\<open>path.read_text()\<close>: the whole file, decoded, with its line ends translated\<close>
  "read_text dec p =
     (\<lambda>w. case view w p of
        None \<Rightarrow> (Inl FileNotFoundError, w)
      | Some content \<Rightarrow>
          (case dec content of (text, ok) \<Rightarrow>
             if ok then (Inr (universal_newlines text), emit (Read p) w)
             else (Inl UnicodeDecodeError, emit (Read p) w)))"

definition open_w :: "path \<Rightarrow> unit io" where
  \<comment> \<open>\<open>path.open("w")\<close>: the file is created or emptied\<close>
  "open_w p =
     (\<lambda>w. if parent (resolve w p) \<in> dirs w
        then (Inr (), emit (Write p []) (w\<lparr>files := (files w)(resolve w p \<mapsto> [])\<rparr>))
        else (Inl FileNotFoundError, w))"

definition write_text :: "encoder \<Rightarrow> path \<Rightarrow> string \<Rightarrow> unit io" where
  \<comment> \<open>\<open>open("w")\<close> and \<open>write\<close>: the file holds the bytes of the text afterwards\<close>
  "write_text enc p t =
     (\<lambda>w. if parent (resolve w p) \<in> dirs w
        then (case enc t of
                None \<Rightarrow> (Inl UnicodeEncodeError,
                         emit (Write p []) (w\<lparr>files := (files w)(resolve w p \<mapsto> [])\<rparr>))
              | Some b \<Rightarrow> (Inr (),
                           emit (Write p b) (w\<lparr>files := (files w)(resolve w p \<mapsto> b)\<rparr>)))
        else (Inl FileNotFoundError, w))"

definition append_text :: "encoder \<Rightarrow> path \<Rightarrow> string \<Rightarrow> unit io" where
  \<comment> \<open>\<open>open("a")\<close> and \<open>write\<close>: a missing file is created\<close>
  "append_text enc p t =
     (\<lambda>w. if parent (resolve w p) \<in> dirs w
        then (let old = (case view w p of None \<Rightarrow> [] | Some b \<Rightarrow> b)
              in case enc t of
                   None \<Rightarrow> (Inl UnicodeEncodeError,
                            emit (Append p []) (w\<lparr>files := (files w)(resolve w p \<mapsto> old)\<rparr>))
                 | Some b \<Rightarrow> (Inr (),
                              emit (Append p b) (w\<lparr>files := (files w)(resolve w p \<mapsto> old @ b)\<rparr>)))
        else (Inl FileNotFoundError, w))"

definition mkdir :: "path \<Rightarrow> unit io" where
  \<comment> \<open>\<open>path.mkdir(exist_ok=True)\<close>\<close>
  "mkdir p = (\<lambda>w. (Inr (), emit (Mkdir p) (w\<lparr>dirs := insert (resolve w p) (dirs w)\<rparr>)))"

definition subprocess_run :: "program \<Rightarrow> string list \<Rightarrow> path \<Rightarrow> unit io" where
  \<comment> \<open>\<open>subprocess.run(cmd, check=True, stdout=log, stderr=subprocess.STDOUT)\<close>\<close>
  "subprocess_run proc cmd log_path =
     (\<lambda>w. case proc cmd w of
        None \<Rightarrow> (Inl FileNotFoundError, w)
      | Some (code, out) \<Rightarrow>
          (if code = 0 then Inr () else Inl (CalledProcessError code),
           emit (Run cmd log_path) (w\<lparr>files := (files w)(resolve w log_path \<mapsto> out)\<rparr>)))"

section \<open>The run invoker\<close>

text \<open>
  \<open>run_madgraph\<close> has the same text in both scripts, over different constants: the plain
  script names the generator by the relative path \<open>bin/generate_events\<close>, the cxx script
  by a path below \<open>BASE_DIR\<close>.
\<close>

definition GENERATE_EVENTS :: path where
  "GENERATE_EVENTS = joinpath (Path ''bin'') ''generate_events''"

definition cxx_GENERATE_EVENTS :: "string \<Rightarrow> path" where
  "cxx_GENERATE_EVENTS base = joinpath (joinpath (Path base) ''bin'') ''generate_events''"

definition run_madgraph :: "program \<Rightarrow> string \<Rightarrow> string \<Rightarrow> path io" where
  "run_madgraph proc base name =
     (let cmd = [str_path GENERATE_EVENTS, name, ''-f''];
          log_path = joinpath (LOG_DIR base) (name @ ''.log'')
      in io_bind (py_print (''  -> Running: '' @ join '' '' cmd)) (\<lambda>_.
         io_bind (open_w log_path) (\<lambda>_.
         io_bind (subprocess_run proc cmd log_path) (\<lambda>_.
         io_return log_path))))"

definition cxx_run_madgraph :: "program \<Rightarrow> string \<Rightarrow> string \<Rightarrow> path io" where
  "cxx_run_madgraph proc base name =
     (let cmd = [str_path (cxx_GENERATE_EVENTS base), name, ''-f''];
          log_path = joinpath (LOG_DIR base) (name @ ''.log'')
      in io_bind (py_print (''  -> Running: '' @ join '' '' cmd)) (\<lambda>_.
         io_bind (open_w log_path) (\<lambda>_.
         io_bind (subprocess_run proc cmd log_path) (\<lambda>_.
         io_return log_path))))"

section \<open>Regular expressions as \<open>re\<close> matches them\<close>

text \<open>
  The patterns of the card editors are sequences of a few kinds of items: the anchor \<open>^\<close>
  (in \<open>MULTILINE\<close> mode), the boundary \<open>\b\<close>, a literal text, and a character class under
  \<open>*\<close>, \<open>+\<close> or \<open>?\<close>. A position in a text is the character before it, if any, and the
  text after it. Matching an item at a position gives the positions where the item can
  end, in the order in which a backtracking matcher tries them: a greedy quantifier tries
  the longest run first. The first entry of the list for a whole pattern is the match
  that \<open>re\<close> reports.
\<close>

definition isword :: "char \<Rightarrow> bool" where
  \<comment> \<open>the class \<open>\w\<close>: alphanumeric in the sense of \<open>str.isalnum\<close>, or the underscore\<close>
  "isword c =
     (let n = (of_char c :: nat)
      in (48 \<le> n \<and> n \<le> 57) \<or> (65 \<le> n \<and> n \<le> 90) \<or> n = 95 \<or> (97 \<le> n \<and> n \<le> 122) \<or>
         n = 170 \<or> n = 178 \<or> n = 179 \<or> n = 181 \<or> n = 185 \<or> n = 186 \<or>
         (188 \<le> n \<and> n \<le> 190) \<or> (192 \<le> n \<and> n \<le> 214) \<or> (216 \<le> n \<and> n \<le> 246) \<or>
         248 \<le> n)"

definition signch :: "char \<Rightarrow> bool" where
  \<comment> \<open>the class \<open>[-+]\<close>\<close>
  "signch c = (c = CHR ''-'' \<or> c = CHR ''+'')"

definition numch :: "char \<Rightarrow> bool" where
  \<comment> \<open>the class \<open>[\d.eE+-]\<close>\<close>
  "numch c = (isdigit c \<or> c = CHR ''.'' \<or> c = CHR ''e'' \<or> c = CHR ''E'' \<or> c = CHR ''+'' \<or> c = CHR ''-'')"

datatype rx =
    Bol
  | Wordb
  | Lit string
  | Rep0 "char \<Rightarrow> bool"
  | Rep1 "char \<Rightarrow> bool"
  | Opt "char \<Rightarrow> bool"

type_synonym pos = "char option \<times> string"

fun greedy :: "(char \<Rightarrow> bool) \<Rightarrow> pos \<Rightarrow> pos list" where
  "greedy P (p, []) = [(p, [])]"
| "greedy P (p, c # cs) = (if P c then greedy P (Some c, cs) @ [(p, c # cs)] else [(p, c # cs)])"

fun lit :: "string \<Rightarrow> pos \<Rightarrow> pos list" where
  "lit [] st = [st]"
| "lit (a # as) (p, []) = []"
| "lit (a # as) (p, c # cs) = (if a = c then lit as (Some c, cs) else [])"

fun wordy :: "char option \<Rightarrow> bool" where
  "wordy None = False"
| "wordy (Some c) = isword c"

fun next_char :: "string \<Rightarrow> char option" where
  "next_char [] = None"
| "next_char (c # cs) = Some c"

fun match1 :: "rx \<Rightarrow> pos \<Rightarrow> pos list" where
  "match1 Bol (p, s) = (if p = None \<or> p = Some newline then [(p, s)] else [])"
| "match1 Wordb (p, s) = (if wordy p \<noteq> wordy (next_char s) then [(p, s)] else [])"
| "match1 (Lit l) st = lit l st"
| "match1 (Rep0 P) st = greedy P st"
| "match1 (Rep1 P) (p, []) = []"
| "match1 (Rep1 P) (p, c # cs) = (if P c then greedy P (Some c, cs) else [])"
| "match1 (Opt P) (p, []) = [(p, [])]"
| "match1 (Opt P) (p, c # cs) = (if P c then [(Some c, cs), (p, c # cs)] else [(p, c # cs)])"

fun matches :: "rx list \<Rightarrow> pos \<Rightarrow> pos list" where
  "matches [] st = [st]"
| "matches (r # rs) st = concat (map (matches rs) (match1 r st))"

definition match2 :: "rx list \<Rightarrow> rx list \<Rightarrow> pos \<Rightarrow> (pos \<times> pos) list" where
  \<comment> \<open>a pattern in two parts: where the first part ends and where the second part ends\<close>
  "match2 r1 r2 st = concat (map (\<lambda>a. map (\<lambda>b. (a, b)) (matches r2 a)) (matches r1 st))"

definition match3 :: "rx list \<Rightarrow> rx list \<Rightarrow> rx list \<Rightarrow> pos \<Rightarrow> (pos \<times> pos \<times> pos) list" where
  "match3 r1 r2 r3 st =
     concat (map (\<lambda>a. concat (map (\<lambda>b. map (\<lambda>c. (a, b, c)) (matches r3 b)) (matches r2 a)))
       (matches r1 st))"

definition between :: "pos \<Rightarrow> pos \<Rightarrow> string" where
  \<comment> \<open>the text from one position to a later one\<close>
  "between a b = take (length (snd a) - length (snd b)) (snd a)"

text \<open>
  \<open>re.subn\<close> scans the text from the left. A \<open>matcher\<close> gives, at a position, the candidate
  matches in order, each with its replacement text and its end. A match that consumes
  text is replaced and the scan goes on at its end. After an empty match the next match
  must consume text or start one character further. Where nothing matches, one character
  is copied. The condition on the end of the match in \<open>subn_from\<close> always holds where it
  is tested; it is there for the termination of the scan.
\<close>

type_synonym matcher = "pos \<Rightarrow> (string \<times> pos) list"

fun plan :: "nat \<Rightarrow> (string \<times> pos) list \<Rightarrow> string \<times> nat \<times> pos option" where
  "plan len [] = ([], 0, None)"
| "plan len ((r, e) # rest) =
     (if length (snd e) < len then (r, 1, Some e)
      else (case find (\<lambda>(r', e'). length (snd e') < len) rest of
              Some (r', e') \<Rightarrow> (r @ r', 2, Some e')
            | None \<Rightarrow> (r, 1, None)))"

function subn_from :: "matcher \<Rightarrow> pos \<Rightarrow> string \<times> nat" where
  "subn_from m (p, s) =
     (case plan (length s) (m (p, s)) of
        (txt, k, Some e) \<Rightarrow>
          (if length (snd e) < length s
           then (case subn_from m e of (out, n) \<Rightarrow> (txt @ out, k + n))
           else (txt, k))
      | (txt, k, None) \<Rightarrow>
          (case s of
             [] \<Rightarrow> (txt, k)
           | c # cs \<Rightarrow> (case subn_from m (Some c, cs) of (out, n) \<Rightarrow> (txt @ c # out, k + n))))"
  by pat_completeness auto
termination
  by (relation "measure (\<lambda>(m, st). length (snd st))") auto

declare subn_from.simps [simp del]

definition re_subn :: "matcher \<Rightarrow> string \<Rightarrow> string \<times> nat" where
  \<comment> \<open>\<open>re.subn(pattern, repl, text, flags=re.MULTILINE)\<close>\<close>
  "re_subn m text = subn_from m (None, text)"

section \<open>The card editors\<close>

text \<open>
  The constants of the plain script are the ones in force when its functions run: the
  second group of assignments (relative paths) replaces the first. The cxx script uses
  paths below \<open>BASE_DIR\<close>.
\<close>

definition PARAM_MIN :: string where
  "PARAM_MIN = ''mmll''"

definition PARAM_MAX :: string where
  "PARAM_MAX = ''mmllmax''"

definition TEMPLATE_CARD :: path where
  "TEMPLATE_CARD = joinpath (Path ''Cards'') ''run_card_template.dat''"

definition RUN_CARD :: path where
  "RUN_CARD = joinpath (Path ''Cards'') ''run_card.dat''"

definition OUTPUT_FILE :: path where
  "OUTPUT_FILE = Path ''xsec_vs_mll.txt''"

definition cxx_TEMPLATE_CARD :: "string \<Rightarrow> path" where
  "cxx_TEMPLATE_CARD base = joinpath (joinpath (Path base) ''Cards'') ''run_card_template.dat''"

definition cxx_RUN_CARD :: "string \<Rightarrow> path" where
  "cxx_RUN_CARD base = joinpath (joinpath (Path base) ''Cards'') ''run_card.dat''"

definition PARAM_CARD_TEMPLATE :: "string \<Rightarrow> path" where
  "PARAM_CARD_TEMPLATE base = joinpath (joinpath (Path base) ''Cards'') ''param_card_template.dat''"

definition PARAM_CARD :: "string \<Rightarrow> path" where
  "PARAM_CARD base = joinpath (joinpath (Path base) ''Cards'') ''param_card.dat''"

definition cxx_OUTPUT_FILE :: "string \<Rightarrow> path" where
  "cxx_OUTPUT_FILE base = joinpath (Path base) ''xsec_vs_mll_cxx.txt''"

definition key_head :: "rx list" where
  \<comment> \<open>\<open>^\s*[-+]?[\d.eE+-]+\<close>\<close>
  "key_head = [Bol, Rep0 isspace, Opt signch, Rep1 numch]"

definition key_group :: "string \<Rightarrow> rx list" where
  \<comment> \<open>the group \<open>(\s*=\s*{name}\b)\<close>\<close>
  "key_group name = [Rep0 isspace, Lit ''='', Rep0 isspace, Lit name, Wordb]"

definition sub_key :: "string \<Rightarrow> string \<Rightarrow> matcher" where
  \<comment> \<open>the pattern for \<open>name\<close> with the replacement \<open>f" {v}\\1"\<close>\<close>
  "sub_key name v st =
     map (\<lambda>(a, b). (CHR '' '' # v @ between a b, b)) (match2 key_head (key_group name) st)"

definition update_run_card :: "'f builtins \<Rightarrow> rat \<Rightarrow> rat \<Rightarrow> unit io" where
  "update_run_card py mmin mmax =
     io_bind (read_text (py_decode py) TEMPLATE_CARD) (\<lambda>text.
       let (text1, nmin) = re_subn (sub_key PARAM_MIN (fmt_6g py mmin)) text;
           (text2, nmax) = re_subn (sub_key PARAM_MAX (fmt_6g py mmax)) text1
       in if nmin = 0 \<or> nmax = 0 then io_raise (RuntimeError None)
          else io_bind (write_text (py_encode py) RUN_CARD text2) (\<lambda>_.
               py_print (''  -> Updated run_card.dat: '' @ PARAM_MIN @ ''='' @ str_float py mmin @
                         '', '' @ PARAM_MAX @ ''='' @ str_float py mmax)))"

definition cxx_update_run_card :: "'f builtins \<Rightarrow> string \<Rightarrow> rat \<Rightarrow> rat \<Rightarrow> unit io" where
  "cxx_update_run_card py base mmin mmax =
     io_bind (read_text (py_decode py) (cxx_TEMPLATE_CARD base)) (\<lambda>text.
       let (text1, nmin) = re_subn (sub_key PARAM_MIN (fmt_6g py mmin)) text;
           (text2, nmax) = re_subn (sub_key PARAM_MAX (fmt_6g py mmax)) text1
       in if nmin = 0 \<or> nmax = 0 then io_raise (RuntimeError None)
          else io_bind (write_text (py_encode py) (cxx_RUN_CARD base) text2) (\<lambda>_.
               py_print (''  -> Updated run_card.dat: '' @ PARAM_MIN @ ''='' @ str_float py mmin @
                         '', '' @ PARAM_MAX @ ''='' @ str_float py mmax)))"

text \<open>
  The pattern of \<open>update_param_card\<close> is built from the label given on the command line.
  The label is modelled as literal text, which is what the pattern means for a label made
  of word characters.
\<close>

definition cxx_index :: "rx list" where
  \<comment> \<open>the group \<open>(\s*\d+\s+)\<close> after \<open>^\<close>\<close>
  "cxx_index = [Bol, Rep0 isspace, Rep1 isdigit, Rep1 isspace]"

definition cxx_number :: "rx list" where
  \<comment> \<open>\<open>[-+]?[\d.eE+-]+\<close>\<close>
  "cxx_number = [Opt signch, Rep1 numch]"

definition cxx_comment :: "string \<Rightarrow> rx list" where
  \<comment> \<open>the group \<open>(\s+#\s*{label}\b)\<close>\<close>
  "cxx_comment label = [Rep1 isspace, Lit ''#'', Rep0 isspace, Lit label, Wordb]"

definition sub_cxx :: "string \<Rightarrow> string \<Rightarrow> matcher" where
  \<comment> \<open>the replacement \<open>lambda m: f"{m.group(1)}{v}{m.group(2)}"\<close>\<close>
  "sub_cxx label v st =
     map (\<lambda>(a, b, c). (between st a @ v @ between b c, c))
       (match3 cxx_index cxx_number (cxx_comment label) st)"

definition update_param_card :: "'f builtins \<Rightarrow> string \<Rightarrow> string \<Rightarrow> int \<Rightarrow> unit io" where
  "update_param_card py base label cxx_value =
     io_bind (read_text (py_decode py) (PARAM_CARD_TEMPLATE base)) (\<lambda>text.
       let (new_text, n) = re_subn (sub_cxx label (fmt_6e py cxx_value)) text
       in if n = 0 then io_raise (RuntimeError None)
          else io_bind (write_text (py_encode py) (PARAM_CARD base) new_text) (\<lambda>_.
               py_print (''  -> Updated param_card.dat: '' @ label @ '' = '' @ str_int cxx_value)))"

section \<open>The result parser of the cxx script\<close>

text \<open>The cxx script carries its own copy of \<open>parse_cross_section\<close>.\<close>

definition cxx_parse_fields :: "(string \<Rightarrow> 'f option) \<Rightarrow> string list \<Rightarrow> error + ('f \<times> 'f \<times> string)" where
  "cxx_parse_fields pf parts =
     bind (index parts 2) (\<lambda>t2.
     bind (to_float pf t2) (\<lambda>xsec.
     bind (index parts 4) (\<lambda>t4.
     bind (to_float pf t4) (\<lambda>err.
     bind (index parts 5) (\<lambda>unit.
     Inr (xsec, err, unit))))))"

fun cxx_scan_log :: "(string \<Rightarrow> 'f option) \<Rightarrow> bool \<Rightarrow> string list \<Rightarrow> error + ('f \<times> 'f \<times> string)" where
  "cxx_scan_log pf ok [] = (if ok then Inl (RuntimeError None) else Inl UnicodeDecodeError)"
| "cxx_scan_log pf ok (line # rest) =
     (if contains ''Cross-section :'' line
      then (case cxx_parse_fields pf (str_split line) of
              Inl e \<Rightarrow> Inl (RuntimeError (Some e))
            | Inr r \<Rightarrow> Inr r)
      else cxx_scan_log pf ok rest)"

definition cxx_parse_cross_section ::
  "decoder \<Rightarrow> (string \<Rightarrow> 'f option) \<Rightarrow> (path \<rightharpoonup> string) \<Rightarrow> path \<Rightarrow> error + ('f \<times> 'f \<times> string)" where
  "cxx_parse_cross_section dec pf fs log_path =
     (case fs log_path of
        None \<Rightarrow> Inl FileNotFoundError
      | Some content \<Rightarrow> (case dec content of (text, ok) \<Rightarrow> cxx_scan_log pf ok (readlines text)))"

section \<open>The drivers\<close>

definition read_log :: "((path \<rightharpoonup> string) \<Rightarrow> path \<Rightarrow> error + 'a) \<Rightarrow> path \<Rightarrow> 'a io" where
  \<comment> \<open>a call of the result parser: it opens the log when the log exists\<close>
  "read_log parse log_path =
     (\<lambda>w. (parse (view w) log_path,
           if view w log_path = None then w else emit (Read log_path) w))"

definition header :: string where
  "header = ''# mll_min[GeV]  mll_max[GeV]    xsec    err    unit'' @ [newline]"

definition row :: "'f builtins \<Rightarrow> rat \<Rightarrow> rat \<Rightarrow> 'f \<times> 'f \<times> string \<Rightarrow> string" where
  \<comment> \<open>\<open>f"{mmin:10.3f} {mmax:10.3f} {xsec:12.6e} {err:12.6e} {unit}\n"\<close>\<close>
  "row py mmin mmax r =
     (case r of (xsec, err, unit) \<Rightarrow>
        fmt_10_3f py mmin @ '' '' @ fmt_10_3f py mmax @ '' '' @ fmt_12_6e py xsec @ '' '' @
        fmt_12_6e py err @ '' '' @ unit @ [newline])"

definition scan_bin ::
  "'f builtins \<Rightarrow> program \<Rightarrow> string \<Rightarrow> nat \<Rightarrow> rat \<times> rat \<Rightarrow> unit io" where
  \<comment> \<open>the body of the loop of \<open>main\<close>\<close>
  "scan_bin py proc base i b =
     (case b of (mmin, mmax) \<Rightarrow>
        io_bind (py_print ([newline] @ ''=== Bin '' @ str_nat i @ '': '' @ str_float py mmin @ '' - '' @
                           str_float py mmax @ '' GeV ==='')) (\<lambda>_.
        io_bind (update_run_card py mmin mmax) (\<lambda>_.
        io_bind (run_madgraph proc base (run_name mmin mmax)) (\<lambda>log_path.
        io_bind (read_log (parse_cross_section (py_decode py) (py_float py)) log_path) (\<lambda>r.
        io_bind (py_print (''  -> Cross-section: '' @ str_value py (fst r) @ '' +- '' @
                           str_value py (fst (snd r)) @ '' '' @ snd (snd r))) (\<lambda>_.
        append_text (py_encode py) OUTPUT_FILE (row py mmin mmax r)))))))"

fun scan_bins ::
  "'f builtins \<Rightarrow> program \<Rightarrow> string \<Rightarrow> nat \<Rightarrow> (rat \<times> rat) list \<Rightarrow> unit io" where
  \<comment> \<open>\<open>for i, (mmin, mmax) in enumerate(bins, start=i)\<close>\<close>
  "scan_bins py proc base i [] = io_return ()"
| "scan_bins py proc base i (b # bs) =
     io_bind (scan_bin py proc base i b) (\<lambda>_. scan_bins py proc base (Suc i) bs)"

definition main :: "'f builtins \<Rightarrow> program \<Rightarrow> string \<Rightarrow> unit io" where
  "main py proc base =
     io_bind (write_text (py_encode py) OUTPUT_FILE header) (\<lambda>_.
     io_bind (scan_bins py proc base 1 MASS_BINS) (\<lambda>_.
     py_print ([newline] @ ''All done. Results in '' @ str_path OUTPUT_FILE)))"

definition script :: "'f builtins \<Rightarrow> program \<Rightarrow> string \<Rightarrow> unit io" where
  \<comment> \<open>the plain script, run as a program: the module level, then \<open>main()\<close>\<close>
  "script py proc base = io_bind (mkdir (LOG_DIR base)) (\<lambda>_. main py proc base)"

definition cxx_header :: string where
  "cxx_header = ''# mll_min[GeV]  mll_max[GeV]   cxx    xsec    err    unit'' @ [newline]"

definition cxx_row :: "'f builtins \<Rightarrow> rat \<Rightarrow> rat \<Rightarrow> int \<Rightarrow> 'f \<times> 'f \<times> string \<Rightarrow> string" where
  \<comment> \<open>\<open>f"{mmin:10.3f} {mmax:10.3f} {cxx:8.3f} {xsec:12.6e} {err:12.6e} {unit}\n"\<close>\<close>
  "cxx_row py mmin mmax cxx r =
     (case r of (xsec, err, unit) \<Rightarrow>
        fmt_10_3f py mmin @ '' '' @ fmt_10_3f py mmax @ '' '' @ fmt_8_3f py cxx @ '' '' @
        fmt_12_6e py xsec @ '' '' @ fmt_12_6e py err @ '' '' @ unit @ [newline])"

definition cxx_scan_value ::
  "'f builtins \<Rightarrow> program \<Rightarrow> string \<Rightarrow> string \<Rightarrow> nat \<Rightarrow> rat \<times> rat \<Rightarrow> int \<Rightarrow> unit io" where
  \<comment> \<open>the body of the inner loop of \<open>main\<close>\<close>
  "cxx_scan_value py proc base label i b cxx =
     (case b of (mmin, mmax) \<Rightarrow>
        io_bind (py_print ([newline] @ ''=== Bin '' @ str_nat i @ '': '' @ str_float py mmin @ '' - '' @
                           str_float py mmax @ '' GeV, cxx = '' @ str_int cxx @ '' ==='')) (\<lambda>_.
        io_bind (cxx_update_run_card py base mmin mmax) (\<lambda>_.
        io_bind (update_param_card py base label cxx) (\<lambda>_.
        io_bind (cxx_run_madgraph proc base (cxx_run_name mmin mmax cxx)) (\<lambda>log_path.
        io_bind (read_log (cxx_parse_cross_section (py_decode py) (py_float py)) log_path) (\<lambda>r.
        io_bind (py_print (''  -> Cross-section: '' @ str_value py (fst r) @ '' +- '' @
                           str_value py (fst (snd r)) @ '' '' @ snd (snd r))) (\<lambda>_.
        append_text (py_encode py) (cxx_OUTPUT_FILE base) (cxx_row py mmin mmax cxx r))))))))"

fun cxx_scan_values ::
  "'f builtins \<Rightarrow> program \<Rightarrow> string \<Rightarrow> string \<Rightarrow> nat \<Rightarrow> rat \<times> rat \<Rightarrow> int list \<Rightarrow> unit io" where
  \<comment> \<open>\<open>for cxx in values\<close>\<close>
  "cxx_scan_values py proc base label i b [] = io_return ()"
| "cxx_scan_values py proc base label i b (cxx # rest) =
     io_bind (cxx_scan_value py proc base label i b cxx)
       (\<lambda>_. cxx_scan_values py proc base label i b rest)"

fun cxx_scan_bins ::
  "'f builtins \<Rightarrow> program \<Rightarrow> string \<Rightarrow> string \<Rightarrow> nat \<Rightarrow> (rat \<times> rat) list \<Rightarrow> unit io" where
  "cxx_scan_bins py proc base label i [] = io_return ()"
| "cxx_scan_bins py proc base label i (b # bs) =
     io_bind (cxx_scan_values py proc base label i b CXX_VALUES)
       (\<lambda>_. cxx_scan_bins py proc base label (Suc i) bs)"

definition cxx_main ::
  "'f builtins \<Rightarrow> program \<Rightarrow> string \<Rightarrow> string \<Rightarrow> unit io" where
  "cxx_main py proc base label =
     io_bind (write_text (py_encode py) (cxx_OUTPUT_FILE base) cxx_header) (\<lambda>_.
     io_bind (cxx_scan_bins py proc base label 1 MASS_BINS) (\<lambda>_.
     py_print ([newline] @ ''All done. Results in '' @ str_path (cxx_OUTPUT_FILE base))))"

definition usage :: string where
  "usage = ''Usage: nohup python3 scan_mll_bins_cxx.py <cxx>''"

definition cxx_script ::
  "'f builtins \<Rightarrow> program \<Rightarrow> string \<Rightarrow> string list \<Rightarrow> unit io" where
  \<comment> \<open>the cxx script, run as a program with \<open>sys.argv = argv\<close>: the module level, then \<open>main()\<close>\<close>
  "cxx_script py proc base argv =
     io_bind (mkdir (LOG_DIR base)) (\<lambda>_.
       if length argv < 2 then io_bind (py_print usage) (\<lambda>_. io_raise (SystemExit 1))
       else cxx_main py proc base (argv ! 1))"

section \<open>Concrete parameters for the examples\<close>

text \<open>
  Where an example needs concrete values for the parameters, these stand for them. The
  formats agree with Python's on the bounds of the mass bins, which are whole numbers
  below \<open>10\<^sup>6\<close>, up to padding; the floats read from a log are kept as decimal
  mantissa and exponent and are printed as such. The codec is ISO 8859-1. \<open>example_proc\<close> is a generator that
  succeeds and reports one cross-section.
\<close>

definition example_py :: "(int \<times> int) builtins" where
  "example_py =
     \<lparr>py_decode = latin1,
      py_encode = latin1_bytes,
      py_float = decimal,
      str_float = (\<lambda>x. str_int (py_int x) @ ''.0''),
      str_value = (\<lambda>(m, k). str_int m @ ''e'' @ str_int k),
      fmt_6g = (\<lambda>x. str_int (py_int x)),
      fmt_10_3f = (\<lambda>x. str_int (py_int x) @ ''.000''),
      fmt_12_6e = (\<lambda>(m, k). str_int m @ ''e'' @ str_int k),
      fmt_6e = (\<lambda>i. str_int i @ ''.000000e+00''),
      fmt_8_3f = (\<lambda>i. str_int i @ ''.000'')\<rparr>"

definition example_proc :: program where
  "example_proc cmd w = Some (0, '' Cross-section :   6.594e+02  +-  3.011e+00 pb'' @ [newline])"

section \<open>Properties of the result parser\<close>









section \<open>Run names are unique\<close>

lemma split_at_first:
  assumes "c \<notin> set u" "c \<notin> set u'" "u @ c # v = u' @ c # v'"
  shows "u = u' \<and> v = v'"
proof -
  have "takeWhile (\<lambda>x. x \<noteq> c) (u @ c # v) = u" using assms(1) by (induction u) auto
  moreover have "takeWhile (\<lambda>x. x \<noteq> c) (u' @ c # v') = u'" using assms(2) by (induction u') auto
  ultimately have "u = u'" using assms(3) by simp
  then show ?thesis using assms(3) by simp
qed

lemma of_char_digit_char: "d < 10 \<Longrightarrow> (of_char (digit_char d) :: nat) = 48 + d"
  by (simp add: digit_char_def)

lemma digit_char_isdigit: "d < 10 \<Longrightarrow> isdigit (digit_char d)"
  by (simp add: isdigit_def of_char_digit_char)

lemma str_nat_digits: "list_all isdigit (str_nat n)"
proof (induction n rule: str_nat.induct)
  case (1 n)
  show ?case
  proof (cases "n < 10")
    case True
    then show ?thesis by (subst str_nat.simps) (simp add: digit_char_isdigit)
  next
    case False
    with 1 show ?thesis by (subst str_nat.simps) (simp add: digit_char_isdigit)
  qed
qed

lemma digits_value_snoc: "digits_value (ds @ [d]) = 10 * digits_value ds + (of_char d - 48)"
  by (simp add: digits_value_def)

lemma digits_value_str_nat: "digits_value (str_nat n) = n"
proof (induction n rule: str_nat.induct)
  case (1 n)
  show ?case
  proof (cases "n < 10")
    case True
    then show ?thesis
      by (subst str_nat.simps) (simp add: digits_value_def of_char_digit_char)
  next
    case False
    with 1 show ?thesis
      by (subst str_nat.simps) (simp add: digits_value_snoc of_char_digit_char)
  qed
qed

lemma str_nat_inj: "str_nat n = str_nat m \<Longrightarrow> n = m"
  by (metis digits_value_str_nat)

lemma str_nat_not_empty: "str_nat n \<noteq> []"
  by (subst str_nat.simps) simp

lemma isdigit_not_minus: "isdigit c \<Longrightarrow> c \<noteq> CHR ''-''" and isdigit_not_underscore: "isdigit c \<Longrightarrow> c \<noteq> CHR ''_''"
  by (auto simp: isdigit_def)

lemma str_nat_no_minus: "hd (str_nat n) \<noteq> CHR ''-''"
  using str_nat_digits [of n] str_nat_not_empty [of n]
  by (cases "str_nat n") (auto dest: isdigit_not_minus)

lemma str_int_inj: "str_int i = str_int j \<Longrightarrow> i = j"
proof -
  assume e: "str_int i = str_int j"
  have *: "CHR ''-'' # str_nat a \<noteq> str_nat b" for a b
    using str_nat_no_minus [of b] by (cases "str_nat b") auto
  show ?thesis
  proof (cases "i < 0"; cases "j < 0")
    assume "i < 0" "j < 0"
    with e have "nat (- i) = nat (- j)" by (simp add: str_int_def str_nat_inj)
    with \<open>i < 0\<close> \<open>j < 0\<close> show ?thesis by simp
  next
    assume "i < 0" "\<not> j < 0"
    with e * show ?thesis by (simp add: str_int_def)
  next
    assume "\<not> i < 0" "j < 0"
    with e * [of "nat (- j)" "nat i"] show ?thesis by (simp add: str_int_def)
  next
    assume "\<not> i < 0" "\<not> j < 0"
    with e have "nat i = nat j" by (simp add: str_int_def str_nat_inj)
    with \<open>\<not> i < 0\<close> \<open>\<not> j < 0\<close> show ?thesis by simp
  qed
qed

lemma str_int_no_underscore: "CHR ''_'' \<notin> set (str_int i)"
  using str_nat_digits by (auto simp: str_int_def list_all_iff dest: isdigit_not_underscore)

lemma bin_ints_distinct: "distinct (map (\<lambda>b. (py_int (fst b), py_int (snd b))) MASS_BINS)"
  by code_simp

lemma cxx_tags_distinct: "distinct (map cxx_tag CXX_VALUES)"
  by code_simp


lemma bin_ints_inj:
  assumes "(a, b) \<in> set MASS_BINS" "(a', b') \<in> set MASS_BINS"
    and "py_int a = py_int a'" "py_int b = py_int b'"
  shows "(a, b) = (a', b')"
proof -
  have "inj_on (\<lambda>b. (py_int (fst b), py_int (snd b))) (set MASS_BINS)"
    using bin_ints_distinct by (simp add: distinct_map)
  moreover have "(\<lambda>b. (py_int (fst b), py_int (snd b))) (a, b) =
      (\<lambda>b. (py_int (fst b), py_int (snd b))) (a', b')"
    using assms(3,4) by simp
  ultimately show ?thesis
    using assms(1,2) by (rule inj_onD)
qed

lemma run_name_inj:
  assumes "(a, b) \<in> set MASS_BINS" "(a', b') \<in> set MASS_BINS" "run_name a b = run_name a' b'"
  shows "(a, b) = (a', b')"
proof -
  have "str_int (py_int a) @ CHR ''_'' # str_int (py_int b) =
        str_int (py_int a') @ CHR ''_'' # str_int (py_int b')"
    using assms(3) by (simp add: run_name_def)
  from split_at_first [OF str_int_no_underscore str_int_no_underscore this]
  have "py_int a = py_int a'" "py_int b = py_int b'"
    by (simp_all add: str_int_inj)
  with assms(1,2) show ?thesis by (rule bin_ints_inj)
qed

lemma cxx_run_name_inj:
  assumes "(a, b) \<in> set MASS_BINS" "(a', b') \<in> set MASS_BINS"
    and "c \<in> set CXX_VALUES" "c' \<in> set CXX_VALUES"
    and "cxx_run_name a b c = cxx_run_name a' b' c'"
  shows "(a, b) = (a', b') \<and> c = c'"
proof -
  have "str_int (py_int a) @ CHR ''_'' # (str_int (py_int b) @ CHR ''_'' # (''cxx_'' @ cxx_tag c)) =
        str_int (py_int a') @ CHR ''_'' # (str_int (py_int b') @ CHR ''_'' # (''cxx_'' @ cxx_tag c'))"
    using assms(5) by (simp add: cxx_run_name_def)
  from split_at_first [OF str_int_no_underscore str_int_no_underscore this]
  have 1: "str_int (py_int a) = str_int (py_int a')"
    and "str_int (py_int b) @ CHR ''_'' # (''cxx_'' @ cxx_tag c) =
         str_int (py_int b') @ CHR ''_'' # (''cxx_'' @ cxx_tag c')"
    by simp_all
  from split_at_first [OF str_int_no_underscore str_int_no_underscore this(2)]
  have 2: "str_int (py_int b) = str_int (py_int b')" and 3: "cxx_tag c = cxx_tag c'"
    by simp_all
  from 1 2 have "py_int a = py_int a'" "py_int b = py_int b'"
    by (simp_all add: str_int_inj)
  with assms(1,2) have "(a, b) = (a', b')" by (rule bin_ints_inj)
  moreover have "inj_on cxx_tag (set CXX_VALUES)"
    using cxx_tags_distinct by (simp add: distinct_map)
  with 3 assms(3,4) have "c = c'" by (auto dest: inj_onD)
  ultimately show ?thesis by simp
qed

lemma split_on_plain: "sep \<notin> set s \<Longrightarrow> split_on sep s = [s]"
  by (induction s) auto

lemma components_log:
  "CHR ''/'' \<notin> set n \<Longrightarrow> components (n @ ''.log'') = [n @ ''.log'']"
  by (simp add: components_def split_on_plain)

lemma log_name_relative: "CHR ''/'' \<notin> set n \<Longrightarrow> \<not> prefix ''/'' (n @ ''.log'')"
  by (cases n) auto

lemma log_path_of_plain:
  "CHR ''/'' \<notin> set n \<Longrightarrow>
     log_path_of base n = PurePath (anchor (LOG_DIR base)) (names (LOG_DIR base) @ [n @ ''.log''])"
  by (simp add: log_path_of_def joinpath_def components_log log_name_relative)

lemma log_path_of_inj:
  assumes "CHR ''/'' \<notin> set n" "CHR ''/'' \<notin> set n'" "log_path_of base n = log_path_of base n'"
  shows "n = n'"
  using assms by (simp add: log_path_of_plain)

lemma isdigit_not_slash: "isdigit c \<Longrightarrow> c \<noteq> CHR ''/''"
  by (auto simp: isdigit_def)

lemma str_int_no_slash: "CHR ''/'' \<notin> set (str_int i)"
  using str_nat_digits by (auto simp: str_int_def list_all_iff dest: isdigit_not_slash)

lemma cxx_tag_no_slash: "CHR ''/'' \<notin> set (cxx_tag c)"
  using str_int_no_slash [of c] by (auto simp: cxx_tag_def replace_char_def)

lemma run_name_relative:
  "CHR ''/'' \<notin> set (run_name a b)" "CHR ''/'' \<notin> set (cxx_run_name a b c)"
  by (simp_all add: run_name_def cxx_run_name_def str_int_no_slash cxx_tag_no_slash)

text \<open>
  C9. Over the configured scan no two runs share a log file: the log paths of the runs
  of the plain script, and those of the runs of the cxx script over the product of
  \<open>MASS_BINS\<close> and \<open>CXX_VALUES\<close>, are pairwise distinct, because the run names are.
\<close>

theorem run_names_unique:
  "distinct (map (\<lambda>(mmin, mmax). log_path_of base (run_name mmin mmax)) MASS_BINS) \<and>
   distinct (map (\<lambda>((mmin, mmax), cxx). log_path_of base (cxx_run_name mmin mmax cxx))
     (List.product MASS_BINS CXX_VALUES))"
proof
  have "distinct MASS_BINS"
    using bin_ints_distinct by (simp add: distinct_map)
  moreover have "inj_on (\<lambda>(mmin, mmax). log_path_of base (run_name mmin mmax)) (set MASS_BINS)"
  proof (rule inj_onI)
    fix x y
    assume x: "x \<in> set MASS_BINS" and y: "y \<in> set MASS_BINS"
      and e: "(case x of (mmin, mmax) \<Rightarrow> log_path_of base (run_name mmin mmax)) =
              (case y of (mmin, mmax) \<Rightarrow> log_path_of base (run_name mmin mmax))"
    obtain a b a' b' where xy: "x = (a, b)" "y = (a', b')"
      by (cases x, cases y) blast
    from e have "log_path_of base (run_name a b) = log_path_of base (run_name a' b')"
      unfolding xy by simp
    then have "run_name a b = run_name a' b'"
      by (rule log_path_of_inj [OF run_name_relative(1) run_name_relative(1)])
    with x y show "x = y"
      unfolding xy by (rule run_name_inj)
  qed
  ultimately show "distinct (map (\<lambda>(mmin, mmax). log_path_of base (run_name mmin mmax)) MASS_BINS)"
    by (simp add: distinct_map)
next
  have "distinct MASS_BINS" "distinct CXX_VALUES"
    using bin_ints_distinct cxx_tags_distinct by (simp_all add: distinct_map)
  then have "distinct (List.product MASS_BINS CXX_VALUES)" by (rule distinct_product)
  moreover have "inj_on (\<lambda>((mmin, mmax), cxx). log_path_of base (cxx_run_name mmin mmax cxx))
      (set (List.product MASS_BINS CXX_VALUES))"
  proof (rule inj_onI, goal_cases)
    case (1 x y)
    note x = 1(1) and y = 1(2) and e = 1(3)
    obtain a b c a' b' c' where xy: "x = ((a, b), c)" "y = ((a', b'), c')"
      by (cases x, cases y) auto
    from e have "log_path_of base (cxx_run_name a b c) = log_path_of base (cxx_run_name a' b' c')"
      unfolding xy by simp
    then have n: "cxx_run_name a b c = cxx_run_name a' b' c'"
      by (rule log_path_of_inj [OF run_name_relative(2) run_name_relative(2)])
    from x y have m: "(a, b) \<in> set MASS_BINS" "(a', b') \<in> set MASS_BINS"
      "c \<in> set CXX_VALUES" "c' \<in> set CXX_VALUES"
      unfolding xy by simp_all
    have "(a, b) = (a', b') \<and> c = c'"
      by (rule cxx_run_name_inj [OF m n])
    then show "x = y"
      by (simp add: xy)
  qed
  ultimately show "distinct (map (\<lambda>((mmin, mmax), cxx). log_path_of base (cxx_run_name mmin mmax cxx))
     (List.product MASS_BINS CXX_VALUES))"
    by (simp add: distinct_map)
qed

section \<open>The run invoker\<close>








section \<open>The command line of the cxx script\<close>

text \<open>
  C10. Started with fewer than two entries in \<open>sys.argv\<close>, the cxx script creates its log
  directory, prints the usage message and exits with status 1. Nothing else happens: no
  file is written, no subprocess is run, and the outcome does not depend on any file.
\<close>

theorem cxx_script_usage:
  "length argv < 2 \<Longrightarrow>
     cxx_script py proc base argv w =
       (Inl (SystemExit 1),
        w\<lparr>dirs := insert (resolve w (LOG_DIR base)) (dirs w),
           trace := trace w @ [Mkdir (LOG_DIR base), Print usage]\<rparr>)"
  by (simp add: cxx_script_def io_bind_def mkdir_def py_print_def io_raise_def emit_def)

theorem cxx_script_usage_witness:
  "length [''scan_mll_bins_cxx.py''] < 2 \<and>
   cxx_script example_py example_proc ''/home/u/proc'' [''scan_mll_bins_cxx.py'']
     \<lparr>cwd = ''/home/u/proc'', dirs = {Path ''/home/u/proc''}, files = Map.empty, trace = []\<rparr> =
     (Inl (SystemExit 1),
      \<lparr>cwd = ''/home/u/proc'', dirs = {Path ''/home/u/proc/logs'', Path ''/home/u/proc''},
         files = Map.empty,
         trace = [Mkdir (Path ''/home/u/proc/logs''),
                  Print ''Usage: nohup python3 scan_mll_bins_cxx.py <cxx>'']\<rparr>)"
proof -
  let ?w = "\<lparr>cwd = ''/home/u/proc'', dirs = {Path ''/home/u/proc''}, files = Map.empty, trace = []\<rparr>"
  have h: "length [''scan_mll_bins_cxx.py''] < 2"
    by simp
  have l: "LOG_DIR ''/home/u/proc'' = Path ''/home/u/proc/logs''"
    by code_simp
  have r: "resolve ?w (Path ''/home/u/proc/logs'') = Path ''/home/u/proc/logs''"
    by code_simp
  show ?thesis
    using cxx_script_usage [OF h, of example_py example_proc "''/home/u/proc''" ?w] l r
    by (simp add: usage_def)
qed

section \<open>The two scripts side by side\<close>











end
